theory Spec2Isabelle
  imports
    Main
    "HOL-Library.Char_ord"
    "HOL-Library.List_Lexorder"
    "HOL-Library.Multiset"
begin

section \<open>The HTTP layer used by \<open>app.Start\<close>\<close>

text \<open>
  \<open>app/app.go\<close> registers two handlers on a gin router. The router itself belongs to
  the gin library; what the service relies on is modelled here: a handler receives a
  context holding the request and writes a status and a JSON object into it
  (\<open>c.JSON(code, obj)\<close>); the engine keeps the registered routes in order and serves a
  request with the first route of the same method and path. The absolute path of a route
  is the base path of its group followed by the relative path. The library joins and
  normalises the two (for the root group, whose base path is \<open>/\<close>, and a relative path
  starting with \<open>/\<close>, the result is the relative path): for a prefix that is empty or
  of the form \<open>/seg/.../seg\<close> that is plain concatenation, which is what the model
  uses, with the empty string as the base of the root group.
\<close>

datatype json = JString string | JObject "(string \<times> json) list"

datatype body = Json json | Text string

record request =
  req_method :: string
  req_path :: string
  req_query :: "(string \<times> string) list"
  req_header :: "(string \<times> string) list"

record response =
  resp_status :: nat
  resp_body :: body

record ginContext =
  ctx_request :: request
  ctx_written :: "response option"

type_synonym HandlerFunc = "ginContext \<Rightarrow> ginContext"

record route =
  route_method :: string
  route_path :: string
  route_handler :: HandlerFunc

type_synonym Engine = "route list"

definition JSON :: "nat \<Rightarrow> json \<Rightarrow> ginContext \<Rightarrow> ginContext" where
  "JSON code obj c = c\<lparr>ctx_written := Some \<lparr>resp_status = code, resp_body = Json obj\<rparr>\<rparr>"

definition GET :: "string \<Rightarrow> string \<Rightarrow> HandlerFunc \<Rightarrow> Engine \<Rightarrow> Engine" where
  "GET base relativePath h e =
     e @ [\<lparr>route_method = ''GET'', route_path = base @ relativePath, route_handler = h\<rparr>]"

definition Group :: "string \<Rightarrow> string \<Rightarrow> string" where
  "Group base relativePath = base @ relativePath"

definition matches :: "request \<Rightarrow> route \<Rightarrow> bool" where
  "matches r rt = (route_method rt = req_method r \<and> route_path rt = req_path r)"

text \<open>
  Serving a request: no route gives gin's 404 answer; a handler that writes nothing
  leaves the default status 200 with an empty body.
\<close>

definition ServeHTTP :: "Engine \<Rightarrow> request \<Rightarrow> response" where
  "ServeHTTP e r =
     (case find (matches r) e of
        None \<Rightarrow> \<lparr>resp_status = 404, resp_body = Text ''404 page not found''\<rparr>
      | Some rt \<Rightarrow>
          (case ctx_written (route_handler rt \<lparr>ctx_request = r, ctx_written = None\<rparr>) of
             None \<Rightarrow> \<lparr>resp_status = 200, resp_body = Text []\<rparr>
           | Some resp \<Rightarrow> resp))"

section \<open>\<open>app/app.go\<close>\<close>

text \<open>
  \<open>var Version = "unknown"\<close>: the initial value stands unless the linker replaces it at
  build time (\<open>-ldflags "-X ...app.Version=v"\<close>). The argument is that build setting.
\<close>

definition Version :: "string option \<Rightarrow> string" where
  "Version ldflag = (case ldflag of None \<Rightarrow> ''unknown'' | Some v \<Rightarrow> v)"

text \<open>
  Modelled from the spec: \<open>ginserver.Config\<close> is declared in the gocommon library, not
  under src/. The spec gives it as the HTTP settings port, path prefix and CORS flag;
  \<open>Start\<close> reads only \<open>Prefix\<close>.
\<close>

record httpConfig =
  Port :: nat
  Prefix :: string
  EnableCORS :: bool

text \<open>\<open>ShutdownTimeout\<close> is a \<open>time.Duration\<close>: a signed count of nanoseconds.\<close>

record config =
  HTTP :: httpConfig
  ShutdownTimeout :: int

text \<open>
  What \<open>envconfig\<close> needs from outside the repository: how the fields of
  \<open>ginserver.Config\<close> are decoded from the environment (their tags decide which
  variables are required), and \<open>time.ParseDuration\<close> for the one field declared here.
\<close>

record library =
  decodeHTTP :: "(string \<rightharpoonup> string) \<Rightarrow> string + httpConfig"
  ParseDuration :: "string \<Rightarrow> int option"

text \<open>
  \<open>envconfig.Process("", &config)\<close>: the nested struct first, then
  \<open>ShutdownTimeout\<close> with its tags \<open>envconfig:"SHUTDOWN_TIMEOUT" default:"20s"\<close>:
  the default is taken when the variable is not set, and a value that does not parse is
  an error.
\<close>

definition Process :: "library \<Rightarrow> (string \<rightharpoonup> string) \<Rightarrow> string + config" where
  "Process lib env =
     (case decodeHTTP lib env of
        Inl err \<Rightarrow> Inl err
      | Inr h \<Rightarrow>
          (let v = (case env ''SHUTDOWN_TIMEOUT'' of None \<Rightarrow> ''20s'' | Some s \<Rightarrow> s) in
           case ParseDuration lib v of
             None \<Rightarrow> Inl (''envconfig.Process: assigning SHUTDOWN_TIMEOUT to ShutdownTimeout: converting '' @ v)
           | Some d \<Rightarrow> Inr \<lparr>HTTP = h, ShutdownTimeout = d\<rparr>))"

datatype signal = SIGINT | SIGTERM

text \<open>
  The effects of \<open>Start\<close> that the outside can observe, in program order. \<open>Listen p\<close>
  is the HTTP listener started by \<open>httpStart()\<close> on the configured port,
  \<open>ServeTelemetry p\<close> the telemetry listener, \<open>HttpStop d r\<close> the call
  \<open>httpStop(ctx)\<close> with a context of timeout \<open>d\<close> and whatever it reports (\<open>r\<close>).
\<close>

datatype event =
    InitGin httpConfig
  | Handle string string
  | Listen nat
  | ServeTelemetry nat
  | Notify "signal list"
  | LogInfo string
  | HttpStop int "string option"
  | Cancel

text \<open>
  How a call ends: it returns an error value (\<open>None\<close> is \<open>nil\<close>), it panics, or it
  never returns (\<open><-quit\<close> with no signal delivered).
\<close>

datatype outcome = Returned "string option" | Panicked string | Blocked

record state =
  trace :: "event list"
  engine :: Engine

definition emit :: "event \<Rightarrow> state \<Rightarrow> state" where
  "emit ev s = s\<lparr>trace := trace s @ [ev]\<rparr>"

definition router_GET :: "string \<Rightarrow> string \<Rightarrow> HandlerFunc \<Rightarrow> state \<Rightarrow> state" where
  "router_GET base relativePath h s =
     emit (Handle ''GET'' (base @ relativePath)) (s\<lparr>engine := GET base relativePath h (engine s)\<rparr>)"

definition versionHandler :: "string \<Rightarrow> HandlerFunc" where
  "versionHandler ver c = JSON 200 (JObject [(''version'', JString ver)]) c"

definition helloHandler :: HandlerFunc where
  "helloHandler ctx = JSON 200 (JObject [(''message'', JString ''Hello, World!'')]) ctx"

text \<open>
  The part of \<open>Start\<close> between the configuration and the wait for a signal: creating
  the router, the two routes, the HTTP listener, the telemetry listener on 3030 and the
  signal subscription.
\<close>

definition startup :: "string \<Rightarrow> config \<Rightarrow> state" where
  "startup ver cfg =
     (let s0 = emit (InitGin (HTTP cfg)) \<lparr>trace = [], engine = []\<rparr>;
          basePath = Prefix (HTTP cfg);
          s1 = router_GET [] (basePath @ ''/version'') (versionHandler ver) s0;
          apiGroup = Group [] basePath;
          s2 = router_GET apiGroup ''/hello'' helloHandler s1;
          s3 = emit (Listen (Port (HTTP cfg))) s2;
          s4 = emit (ServeTelemetry 3030) s3
      in emit (Notify [SIGINT, SIGTERM]) s4)"

text \<open>
  \<open>Start\<close>. Its inputs besides the libraries: the value of \<open>Version\<close>, the
  environment, the first of SIGINT and SIGTERM delivered to the process (\<open>None\<close> when
  none ever is) and what \<open>httpStop\<close> reports. \<open>envconfig.MustProcess\<close> panics with
  the error of \<open>Process\<close>. The result of \<open>httpStop(ctx)\<close> is dropped and \<open>nil\<close> is
  returned; the deferred \<open>cancel()\<close> runs on return.
\<close>

definition Start ::
  "library \<Rightarrow> string \<Rightarrow> (string \<rightharpoonup> string) \<Rightarrow> signal option \<Rightarrow> string option \<Rightarrow> state \<times> outcome" where
  "Start lib ver env sig stopResult =
     (case Process lib env of
        Inl err \<Rightarrow> (\<lparr>trace = [], engine = []\<rparr>, Panicked err)
      | Inr cfg \<Rightarrow>
          (let s = startup ver cfg in
           case sig of
             None \<Rightarrow> (s, Blocked)
           | Some _ \<Rightarrow>
               (let s5 = emit (LogInfo ''Shutting down server...'') s;
                    s6 = emit (HttpStop (ShutdownTimeout cfg) stopResult) s5
                in (emit Cancel s6, Returned None))))"

section \<open>\<open>db/migrations\<close>: the migration registry\<close>

text \<open>
  The package embeds its SQL files (\<open>//go:embed *.sql\<close>) and hands them to the
  migration library in \<open>init\<close>. An embedded file system is the list of its files, name
  and content, in the order a directory walk visits them (sorted by name).
\<close>

type_synonym FS = "(string \<times> string) list"

definition joinLines :: "string list \<Rightarrow> string" where
  "joinLines ls = (case ls of [] \<Rightarrow> [] | l # rest \<Rightarrow> foldl (\<lambda>acc x. acc @ CHR 0x0A # x) l rest)"

text \<open>The text of \<open>db/migrations/20251105065350_init.up.sql\<close>.\<close>

definition init_up_sql :: string where
  "init_up_sql = joinLines
    [''CREATE TYPE task_priority AS ENUM ('low', 'medium', 'high', 'critical');'',
     ''CREATE TYPE reminder_vendor AS ENUM ('email', 'discord', 'slack', 'sms', 'push', 'webhook');'',
     '''',
     ''CREATE TABLE IF NOT EXISTS tasks ('',
     ''    id SERIAL PRIMARY KEY,'',
     ''    title TEXT NOT NULL,'',
     ''    description TEXT,'',
     ''    priority task_priority NOT NULL DEFAULT 'medium','',
     ''    started_at TIMESTAMPTZ,'',
     ''    ended_at TIMESTAMPTZ,'',
     ''    created_at TIMESTAMPTZ NOT NULL DEFAULT now(),'',
     ''    updated_at TIMESTAMPTZ NOT NULL DEFAULT now()'',
     '');'',
     '''',
     ''CREATE TABLE IF NOT EXISTS labels ('',
     ''    id SERIAL PRIMARY KEY,'',
     ''    name TEXT NOT NULL,'',
     ''    created_by TEXT,'',
     ''    created_at TIMESTAMPTZ NOT NULL DEFAULT now(),'',
     ''    updated_at TIMESTAMPTZ NOT NULL DEFAULT now()'',
     '');'',
     '''',
     ''CREATE TABLE IF NOT EXISTS reminders ('',
     ''    id SERIAL PRIMARY KEY,'',
     ''    task_id INTEGER NOT NULL REFERENCES tasks(id) ON DELETE CASCADE,'',
     ''    vendor reminder_vendor NOT NULL,'',
     ''    created_at TIMESTAMPTZ NOT NULL DEFAULT now(),'',
     ''    updated_at TIMESTAMPTZ NOT NULL DEFAULT now()'',
     '');'',
     '''',
     ''CREATE TABLE IF NOT EXISTS task_labels ('',
     ''    task_id INTEGER NOT NULL REFERENCES tasks(id) ON DELETE CASCADE,'',
     ''    label_id INTEGER NOT NULL REFERENCES labels(id) ON DELETE CASCADE,'',
     ''    PRIMARY KEY (task_id, label_id)'',
     '');'',
     '''',
     ''CREATE INDEX IF NOT EXISTS idx_tasks_created_at ON tasks (created_at);'',
     ''CREATE INDEX IF NOT EXISTS idx_labels_name ON labels (name);'',
     ''CREATE INDEX IF NOT EXISTS idx_reminders_task_id ON reminders (task_id);'']"

text \<open>\<open>var sqlMigrations embed.FS\<close>: the one SQL file of the directory.\<close>

definition sqlMigrations :: FS where
  "sqlMigrations = [(''20251105065350_init.up.sql'', init_up_sql)]"

text \<open>
  Modelled from the spec: the migration record and the operations \<open>NewMigrations\<close>,
  \<open>Discover\<close> and \<open>Sorted\<close> belong to the migration library
  (github.com/uptrace/bun/migrate), which is not under src/. The spec: a migration is
  identified by a sortable name with a timestamp prefix and holds the SQL text of its
  directions; discovery reads all bundled SQL files, groups them into migration records
  and fails on malformed input; "list sorted migrations" returns the full set ordered
  lexically by name, and mutates nothing. A direction is present when a file of that
  direction was embedded, which the files of the repository decide.
\<close>

record migration =
  Name :: string
  Comment :: string
  Up :: "string option"
  Down :: "string option"

type_synonym Migrations = "migration list"

definition NewMigrations :: Migrations where
  "NewMigrations = []"

definition HasSuffix :: "string \<Rightarrow> string \<Rightarrow> bool" where
  "HasSuffix s suffix =
     (length suffix \<le> length s \<and> drop (length s - length suffix) s = suffix)"

definition isDigit :: "char \<Rightarrow> bool" where
  "isDigit c = (c \<in> set ''0123456789'')"

definition isNameChar :: "char \<Rightarrow> bool" where
  "isNameChar c = (c \<in> set ''0123456789abcdefghijklmnopqrstuvwxyz_-'')"

text \<open>
  The library's format of a migration file name:
  \<open><digits>_<comment>.<direction>.sql\<close>, with 1 to 14 digits and a comment of
  lower-case letters, digits, \<open>_\<close> and \<open>-\<close>, as in
  \<open>20251105065350_init.up.sql\<close>. The digits are the name of the migration, the rest
  up to the first dot its comment. Any other name is malformed.
\<close>

definition extractMigrationName :: "string \<Rightarrow> string + string \<times> string" where
  "extractMigrationName fname =
     (let ds = takeWhile isDigit fname;
          r1 = dropWhile isDigit fname;
          cm = takeWhile isNameChar (drop 1 r1);
          r2 = dropWhile isNameChar (drop 1 r1)
      in if 1 \<le> length ds \<and> length ds \<le> 14 \<and> take 1 r1 = ''_'' \<and> cm \<noteq> [] \<and> take 1 r2 = ''.''
         then Inr (ds, cm)
         else Inl (''migrate: unsupported migration name format: '' @ fname))"

text \<open>
  The record of a name is looked up in the registry and appended when absent; the
  update \<open>f\<close> is what discovery then assigns through it.
\<close>

fun getOrCreateMigration :: "string \<Rightarrow> (migration \<Rightarrow> migration) \<Rightarrow> Migrations \<Rightarrow> Migrations" where
  "getOrCreateMigration name f [] = [f \<lparr>Name = name, Comment = [], Up = None, Down = None\<rparr>]"
| "getOrCreateMigration name f (m # ms) =
     (if Name m = name then f m # ms else m # getOrCreateMigration name f ms)"

text \<open>
  Discovery walks the files in order. A file that ends neither in \<open>.up.sql\<close> nor in
  \<open>.down.sql\<close> is passed over (the package's tests embed a file \<open>test.sql\<close> and
  expect \<open>init\<close> not to panic); a malformed name ends the walk with an error;
  otherwise the file's text becomes the up or the down direction of the migration of
  its name.
\<close>

fun Discover :: "Migrations \<Rightarrow> FS \<Rightarrow> string + Migrations" where
  "Discover ms [] = Inr ms"
| "Discover ms ((path, sql) # rest) =
     (if \<not> HasSuffix path ''.up.sql'' \<and> \<not> HasSuffix path ''.down.sql'' then Discover ms rest
      else
        (case extractMigrationName path of
           Inl err \<Rightarrow> Inl err
         | Inr (name, comment) \<Rightarrow>
             if HasSuffix path ''.up.sql''
             then Discover (getOrCreateMigration name (\<lambda>m. m\<lparr>Comment := comment, Up := Some sql\<rparr>) ms) rest
             else Discover (getOrCreateMigration name (\<lambda>m. m\<lparr>Comment := comment, Down := Some sql\<rparr>) ms) rest))"

text \<open>
  \<open>Sorted\<close> sorts a copy of the registry's list by name, in the byte order of Go's
  string comparison, and leaves the registry as it was: it returns the list and the
  registry.
\<close>

definition Sorted :: "Migrations \<Rightarrow> migration list \<times> Migrations" where
  "Sorted ms = (sort_key Name ms, ms)"


text \<open>
  The package's \<open>init\<close>: \<open>Migration.Discover(sqlMigrations)\<close> on the fresh registry
  \<open>var Migration = migrate.NewMigrations()\<close>; an error is a panic (\<open>Inl\<close>).
\<close>

definition init :: "FS \<Rightarrow> string + Migrations" where
  "init fsys =
     (case Discover NewMigrations fsys of
        Inl err \<Rightarrow> Inl err
      | Inr Migration \<Rightarrow> Inr Migration)"

text \<open>
  The naming convention of migration files: the name starts with a timestamp of 14
  digits (\<open>20251105065350\<close>: year, month, day, hour, minute, second).
\<close>

definition timestampNamed :: "string \<Rightarrow> bool" where
  "timestampNamed name = (14 \<le> length name \<and> list_all isDigit (take 14 name))"

definition digitVal :: "char \<Rightarrow> nat" where
  "digitVal c = of_char c - 48"

definition numVal :: "string \<Rightarrow> nat" where
  "numVal s = foldl (\<lambda>a c. 10 * a + digitVal c) 0 s"

definition timestamp :: "string \<Rightarrow> nat" where
  "timestamp name = numVal (take 14 name)"

definition holdsUpAndDown :: "migration \<Rightarrow> bool" where
  "holdsUpAndDown m = (Up m \<noteq> None \<and> Down m \<noteq> None)"

text \<open>
  Where the text of a direction comes from: \<open>hasFile\<close> says that the files hold one
  of the given suffix whose name gives the migration name and whose content is the
  text; \<open>fromFiles\<close> says that a record holds at least one direction, and that each
  direction it holds is the content of such a file (\<open>.up.sql\<close> for up,
  \<open>.down.sql\<close> for down).
\<close>

definition hasFile :: "FS \<Rightarrow> string \<Rightarrow> string \<Rightarrow> string \<Rightarrow> bool" where
  "hasFile fsys suffix name sql =
     list_ex (\<lambda>(path, text). text = sql \<and> HasSuffix path suffix \<and>
        (case extractMigrationName path of Inl err \<Rightarrow> False | Inr (n, comment) \<Rightarrow> n = name)) fsys"

definition fromFile :: "FS \<Rightarrow> string \<Rightarrow> string \<Rightarrow> string option \<Rightarrow> bool" where
  "fromFile fsys suffix name direction =
     (case direction of None \<Rightarrow> True | Some sql \<Rightarrow> hasFile fsys suffix name sql)"

definition fromFiles :: "FS \<Rightarrow> migration \<Rightarrow> bool" where
  "fromFiles fsys m =
     ((Up m \<noteq> None \<or> Down m \<noteq> None)
      \<and> fromFile fsys ''.up.sql'' (Name m) (Up m)
      \<and> fromFile fsys ''.down.sql'' (Name m) (Down m))"

text \<open>A registry of two migrations, the later one first, to run \<open>Sorted\<close> on.\<close>

definition exampleRegistry :: Migrations where
  "exampleRegistry =
     [\<lparr>Name = ''20251201093000'', Comment = ''remind_at'',
        Up = Some ''ALTER TABLE reminders ADD COLUMN remind_at TIMESTAMPTZ;'',
        Down = Some ''ALTER TABLE reminders DROP COLUMN remind_at;''\<rparr>,
      \<lparr>Name = ''20251105065350'', Comment = ''init'', Up = Some init_up_sql, Down = None\<rparr>]"

section \<open>\<open>cmd/service/main.go\<close>\<close>

text \<open>
  \<open>main\<close> builds the command tree of \<open>app.CliCommand()\<close> (\<open>app start\<close> runs
  \<open>Start\<close>) and \<open>postgres.CliCommand(migrations.Migration)\<close>, runs it on
  \<open>os.Args\<close>, and ends with \<open>log.Fatal\<close> when the run returns an error. The database
  commands are the library's; they are given the registry, whose sorted list they read.
\<close>

definition main ::
  "library \<Rightarrow> (migration list \<Rightarrow> string list \<Rightarrow> string option) \<Rightarrow> string \<Rightarrow> Migrations \<Rightarrow>
   string list \<Rightarrow> (string \<rightharpoonup> string) \<Rightarrow> signal option \<Rightarrow> string option \<Rightarrow> state \<times> outcome" where
  "main lib dbCommand ver Migration args env sig stopResult =
     (if take 2 (drop 1 args) = [''app'', ''start''] then Start lib ver env sig stopResult
      else if take 1 (drop 1 args) = [''db'']
        then (\<lparr>trace = [], engine = []\<rparr>, Returned (dbCommand (fst (Sorted Migration)) (drop 2 args)))
      else (\<lparr>trace = [], engine = []\<rparr>, Returned None))"

text \<open>
  The process: the \<open>init\<close> of the imported package \<open>migrations\<close> runs before
  \<open>main\<close>; a panic there ends the process at once.
\<close>

definition program ::
  "library \<Rightarrow> (migration list \<Rightarrow> string list \<Rightarrow> string option) \<Rightarrow> string option \<Rightarrow> FS \<Rightarrow>
   string list \<Rightarrow> (string \<rightharpoonup> string) \<Rightarrow> signal option \<Rightarrow> string option \<Rightarrow> state \<times> outcome" where
  "program lib dbCommand ldflag fsys args env sig stopResult =
     (case init fsys of
        Inl err \<Rightarrow> (\<lparr>trace = [], engine = []\<rparr>, Panicked err)
      | Inr Migration \<Rightarrow> main lib dbCommand (Version ldflag) Migration args env sig stopResult)"

text \<open>
  The exit status of the process: 0 after a normal return, 1 after \<open>log.Fatal\<close>, 2
  after a panic nobody recovers; none while it waits.
\<close>

definition exitStatus :: "outcome \<Rightarrow> nat option" where
  "exitStatus out =
     (case out of
        Returned None \<Rightarrow> Some 0
      | Returned (Some err) \<Rightarrow> Some 1
      | Panicked err \<Rightarrow> Some 2
      | Blocked \<Rightarrow> None)"

text \<open>Whether an event binds a port.\<close>

definition binds :: "event \<Rightarrow> bool" where
  "binds ev = (case ev of Listen p \<Rightarrow> True | ServeTelemetry p \<Rightarrow> True | _ \<Rightarrow> False)"

definition registers :: "event \<Rightarrow> bool" where
  "registers ev = (case ev of Handle m p \<Rightarrow> True | _ \<Rightarrow> False)"

text \<open>The ports of the telemetry listeners started in a trace.\<close>

fun telemetryPorts :: "event list \<Rightarrow> nat list" where
  "telemetryPorts [] = []"
| "telemetryPorts (ServeTelemetry p # evs) = p # telemetryPorts evs"
| "telemetryPorts (ev # evs) = telemetryPorts evs"

text \<open>
  An instance of the library interface, to run the model on concrete inputs: the HTTP
  settings require \<open>HTTP_PORT\<close> (decimal digits) and take the prefix from
  \<open>HTTP_PATH_PREFIX\<close>; durations are a decimal number of seconds, \<open><digits>s\<close>.
\<close>

definition exampleLibrary :: library where
  "exampleLibrary =
     \<lparr>decodeHTTP = (\<lambda>env.
        case env ''HTTP_PORT'' of
          None \<Rightarrow> Inl ''required key HTTP_PORT missing value''
        | Some p \<Rightarrow>
            if p \<noteq> [] \<and> list_all isDigit p
            then Inr \<lparr>Port = numVal p,
                      Prefix = (case env ''HTTP_PATH_PREFIX'' of None \<Rightarrow> [] | Some x \<Rightarrow> x),
                      EnableCORS = (env ''HTTP_ENABLE_CORS'' = Some ''true'')\<rparr>
            else Inl (''envconfig.Process: assigning HTTP_PORT to Port: converting '' @ p)),
      ParseDuration = (\<lambda>s.
        if 2 \<le> length s \<and> last s = CHR ''s'' \<and> list_all isDigit (butlast s)
        then Some (int (numVal (butlast s)) * 1000000000)
        else None)\<rparr>"

definition exampleEnv :: "string \<rightharpoonup> string" where
  "exampleEnv = [''HTTP_PORT'' \<mapsto> ''8080'', ''HTTP_PATH_PREFIX'' \<mapsto> ''/api'']"

definition exampleConfig :: config where
  "exampleConfig =
     \<lparr>HTTP = \<lparr>Port = 8080, Prefix = ''/api'', EnableCORS = False\<rparr>,
      ShutdownTimeout = 20000000000\<rparr>"

section \<open>Properties\<close>

subsection \<open>What \<open>Start\<close> does, step by step\<close>

lemma startup_engine:
  "engine (startup ver cfg) =
     [\<lparr>route_method = ''GET'', route_path = Prefix (HTTP cfg) @ ''/version'',
        route_handler = versionHandler ver\<rparr>,
      \<lparr>route_method = ''GET'', route_path = Prefix (HTTP cfg) @ ''/hello'',
        route_handler = helloHandler\<rparr>]"
  by (simp add: startup_def Let_def router_GET_def emit_def GET_def Group_def)

lemma startup_trace:
  "trace (startup ver cfg) =
     [InitGin (HTTP cfg),
      Handle ''GET'' (Prefix (HTTP cfg) @ ''/version''),
      Handle ''GET'' (Prefix (HTTP cfg) @ ''/hello''),
      Listen (Port (HTTP cfg)),
      ServeTelemetry 3030,
      Notify [SIGINT, SIGTERM]]"
  by (simp add: startup_def Let_def router_GET_def emit_def Group_def)

lemma Start_engine:
  "Process lib env = Inr cfg \<Longrightarrow>
   engine (fst (Start lib ver env sig stopResult)) = engine (startup ver cfg)"
  by (cases sig) (simp_all add: Start_def Let_def emit_def)

lemma Start_trace:
  "Process lib env = Inr cfg \<Longrightarrow>
   trace (fst (Start lib ver env sig stopResult)) =
     trace (startup ver cfg) @
     (case sig of
        None \<Rightarrow> []
      | Some sg \<Rightarrow> [LogInfo ''Shutting down server...'',
                   HttpStop (ShutdownTimeout cfg) stopResult, Cancel])"
  by (cases sig) (simp_all add: Start_def Let_def emit_def)

lemma Start_panics:
  "Process lib env = Inl err \<Longrightarrow>
   Start lib ver env sig stopResult = (\<lparr>trace = [], engine = []\<rparr>, Panicked err)"
  by (simp add: Start_def)

text \<open>
  Configuration processing fails exactly when the HTTP settings cannot be decoded from
  the environment or the shutdown timeout (the value of \<open>SHUTDOWN_TIMEOUT\<close>, or
  \<open>20s\<close> when it is not set) is not a duration.
\<close>

lemma Process_fails_iff:
  "(\<exists>err. Process lib env = Inl err) \<longleftrightarrow>
   (\<exists>err. decodeHTTP lib env = Inl err) \<or>
   ParseDuration lib (case env ''SHUTDOWN_TIMEOUT'' of None \<Rightarrow> ''20s'' | Some s \<Rightarrow> s) = None"
  by (auto simp: Process_def Let_def split: sum.splits option.splits)

text \<open>With \<open>SHUTDOWN_TIMEOUT\<close> not set, the timeout is what \<open>20s\<close> parses to.\<close>

lemma Process_default_timeout:
  "env ''SHUTDOWN_TIMEOUT'' = None \<Longrightarrow> Process lib env = Inr cfg \<Longrightarrow>
   ParseDuration lib ''20s'' = Some (ShutdownTimeout cfg)"
  by (auto simp: Process_def Let_def split: sum.splits option.splits)

lemma exampleProcess: "Process exampleLibrary exampleEnv = Inr exampleConfig"
  by (simp add: Process_def exampleLibrary_def exampleEnv_def exampleConfig_def
      isDigit_def numVal_def digitVal_def)

lemma exampleProcess_missing:
  "Process exampleLibrary (exampleEnv(''HTTP_PORT'' := None)) =
     Inl ''required key HTTP_PORT missing value''"
  by (simp add: Process_def exampleLibrary_def exampleEnv_def)

lemma exampleProcess_invalid:
  "Process exampleLibrary (exampleEnv(''SHUTDOWN_TIMEOUT'' \<mapsto> ''soon'')) =
     Inl ''envconfig.Process: assigning SHUTDOWN_TIMEOUT to ShutdownTimeout: converting soon''"
  by (simp add: Process_def exampleLibrary_def exampleEnv_def isDigit_def numVal_def digitVal_def)

subsection \<open>The two routes\<close>

text \<open>
  C1. Once \<open>Start\<close> has processed its configuration, every GET request for the path
  prefix followed by \<open>/hello\<close> is answered with status 200 and the JSON object
  \<open>{"message":"Hello, World!"}\<close>, whatever its query parameters and headers are (and
  whatever the version, the signal and the result of the stop are).
\<close>

theorem hello_always_200:
  assumes "Process lib env = Inr cfg"
  shows "ServeHTTP (engine (fst (Start lib ver env sig stopResult)))
           \<lparr>req_method = ''GET'', req_path = Prefix (HTTP cfg) @ ''/hello'',
            req_query = q, req_header = h\<rparr>
         = \<lparr>resp_status = 200,
            resp_body = Json (JObject [(''message'', JString ''Hello, World!'')])\<rparr>"
  unfolding Start_engine [OF assms] startup_engine
  by (simp add: ServeHTTP_def matches_def helloHandler_def JSON_def)

theorem hello_always_200_witness:
  "ServeHTTP (engine (fst (Start exampleLibrary ''v1.2.3'' exampleEnv None None)))
     \<lparr>req_method = ''GET'', req_path = ''/api/hello'',
      req_query = [(''name'', ''x'')], req_header = [(''Accept'', ''text/html'')]\<rparr>
   = \<lparr>resp_status = 200,
      resp_body = Json (JObject [(''message'', JString ''Hello, World!'')])\<rparr>"
  using hello_always_200 [OF exampleProcess, of "''v1.2.3''" None None
      "[(''name'', ''x'')]" "[(''Accept'', ''text/html'')]"]
  by (simp add: exampleConfig_def)

text \<open>
  C2. Every GET request for the path prefix followed by \<open>/version\<close> is answered with
  status 200 and the JSON object \<open>{"version": v}\<close>, where \<open>v\<close> is the value of
  \<open>Version\<close>: the string set at build time, and \<open>unknown\<close> when none was set.
\<close>

theorem version_returns_build_version:
  assumes "Process lib env = Inr cfg"
  shows "ServeHTTP (engine (fst (Start lib (Version ldflag) env sig stopResult)))
           \<lparr>req_method = ''GET'', req_path = Prefix (HTTP cfg) @ ''/version'',
            req_query = q, req_header = h\<rparr>
         = \<lparr>resp_status = 200,
            resp_body = Json (JObject [(''version'', JString (Version ldflag))])\<rparr>
       \<and> Version None = ''unknown'' \<and> Version (Some v) = v"
  unfolding Start_engine [OF assms] startup_engine
  by (simp add: ServeHTTP_def matches_def versionHandler_def JSON_def Version_def)

theorem version_returns_build_version_witness:
  "ServeHTTP (engine (fst (Start exampleLibrary (Version None) exampleEnv None None)))
     \<lparr>req_method = ''GET'', req_path = ''/api/version'',
      req_query = [(''verbose'', ''1'')], req_header = []\<rparr>
   = \<lparr>resp_status = 200, resp_body = Json (JObject [(''version'', JString ''unknown'')])\<rparr>"
  using version_returns_build_version [OF exampleProcess, of None None None
      "[(''verbose'', ''1'')]" "[]" "[]"]
  by (simp add: exampleConfig_def Version_def)

subsection \<open>Failing fast\<close>

text \<open>
  C4. When configuration processing fails (a required variable is missing or a value
  is invalid), \<open>Start\<close> panics with that error before anything else happens: its trace
  holds no event that binds a port, neither the HTTP listener nor the telemetry
  listener, and the process ends with exit status 2.
\<close>

theorem config_error_aborts_before_bind:
  assumes "Process lib env = Inl err"
  shows "snd (Start lib ver env sig stopResult) = Panicked err
       \<and> filter binds (trace (fst (Start lib ver env sig stopResult))) = []
       \<and> exitStatus (snd (Start lib ver env sig stopResult)) = Some 2"
  by (simp add: Start_panics [OF assms] exitStatus_def)

theorem config_error_aborts_before_bind_witness:
  "snd (Start exampleLibrary ''unknown'' (exampleEnv(''HTTP_PORT'' := None)) (Some SIGINT) None)
     = Panicked ''required key HTTP_PORT missing value''
   \<and> filter binds (trace (fst (Start exampleLibrary ''unknown''
        (exampleEnv(''HTTP_PORT'' := None)) (Some SIGINT) None))) = []
   \<and> exitStatus (snd (Start exampleLibrary ''unknown''
        (exampleEnv(''HTTP_PORT'' := None)) (Some SIGINT) None)) = Some 2"
  by (rule config_error_aborts_before_bind [OF exampleProcess_missing])

subsection \<open>Shutdown\<close>

text \<open>
  C9. After a signal, \<open>Start\<close> logs, calls the HTTP stop with a context whose timeout
  is the configured shutdown timeout, and returns \<open>nil\<close>, whatever the stop reports:
  the trace is that of the startup followed by the log line, the stop and the cancel.
\<close>

theorem shutdown_result_ignored:
  assumes "Process lib env = Inr cfg"
  shows "snd (Start lib ver env (Some sg) stopResult) = Returned None
       \<and> trace (fst (Start lib ver env (Some sg) stopResult)) =
           trace (startup ver cfg) @
           [LogInfo ''Shutting down server...'',
            HttpStop (ShutdownTimeout cfg) stopResult, Cancel]"
  using assms by (simp add: Start_def Let_def emit_def)

theorem shutdown_result_ignored_witness:
  "snd (Start exampleLibrary ''unknown'' exampleEnv (Some SIGTERM)
          (Some ''context deadline exceeded'')) = Returned None
   \<and> trace (fst (Start exampleLibrary ''unknown'' exampleEnv (Some SIGTERM)
          (Some ''context deadline exceeded''))) =
       [InitGin \<lparr>Port = 8080, Prefix = ''/api'', EnableCORS = False\<rparr>,
        Handle ''GET'' ''/api/version'', Handle ''GET'' ''/api/hello'',
        Listen 8080, ServeTelemetry 3030, Notify [SIGINT, SIGTERM],
        LogInfo ''Shutting down server...'',
        HttpStop 20000000000 (Some ''context deadline exceeded''), Cancel]"
  using shutdown_result_ignored [OF exampleProcess, of "''unknown''" SIGTERM
      "Some ''context deadline exceeded''"]
  by (simp add: startup_trace exampleConfig_def)

subsection \<open>The telemetry port\<close>

text \<open>
  C10. Whatever the libraries, the version, the environment, the signal and the stop
  result are: when \<open>Start\<close> gets past its configuration it starts exactly one
  telemetry listener, on port 3030; when it does not, it starts none.
\<close>

theorem telemetry_port_fixed:
  "telemetryPorts (trace (fst (Start lib ver env sig stopResult))) =
     (case Process lib env of Inl err \<Rightarrow> [] | Inr cfg \<Rightarrow> [3030])"
proof (cases "Process lib env")
  case (Inl err)
  then show ?thesis by (simp add: Start_panics)
next
  case (Inr cfg)
  then show ?thesis by (cases sig) (simp_all add: Start_trace startup_trace)
qed

theorem telemetry_port_fixed_witness:
  "telemetryPorts (trace (fst (Start exampleLibrary ''unknown''
      (exampleEnv(''HTTP_PORT'' \<mapsto> ''3030'', ''TELEMETRY_PORT'' \<mapsto> ''9090'')) None None))) = [3030]"
proof -
  have "Process exampleLibrary (exampleEnv(''HTTP_PORT'' \<mapsto> ''3030'', ''TELEMETRY_PORT'' \<mapsto> ''9090''))
      = Inr (exampleConfig\<lparr>HTTP := (HTTP exampleConfig)\<lparr>Port := 3030\<rparr>\<rparr>)"
    by (simp add: Process_def exampleLibrary_def exampleEnv_def exampleConfig_def
        isDigit_def numVal_def digitVal_def)
  with telemetry_port_fixed [of exampleLibrary "''unknown''"
      "exampleEnv(''HTTP_PORT'' \<mapsto> ''3030'', ''TELEMETRY_PORT'' \<mapsto> ''9090'')" None None]
  show ?thesis by simp
qed

subsection \<open>Initialisation of the migration package\<close>

text \<open>
  C3. When discovery over the embedded files fails, \<open>init\<close> panics with its error and
  the process ends there, with exit status 2: \<open>main\<close> never runs, so no route is
  registered (the trace has no \<open>Handle\<close> event and the engine is empty) and no
  listener is started, whatever the command line and the environment are.
\<close>

theorem discovery_failure_panics_before_routes:
  assumes "Discover NewMigrations fsys = Inl err"
  shows "init fsys = Inl err
       \<and> program lib dbCommand ldflag fsys args env sig stopResult
           = (\<lparr>trace = [], engine = []\<rparr>, Panicked err)
       \<and> filter registers (trace (fst (program lib dbCommand ldflag fsys args env sig stopResult))) = []
       \<and> exitStatus (snd (program lib dbCommand ldflag fsys args env sig stopResult)) = Some 2"
  using assms by (simp add: init_def program_def exitStatus_def)

lemma malformed_discover:
  "Discover NewMigrations [(''init.up.sql'', ''CREATE TABLE t ();'')]
     = Inl ''migrate: unsupported migration name format: init.up.sql''"
  by (simp add: HasSuffix_def extractMigrationName_def isDigit_def)

theorem discovery_failure_panics_before_routes_witness:
  "program exampleLibrary (\<lambda>ms args. None) None [(''init.up.sql'', ''CREATE TABLE t ();'')]
      [''service'', ''app'', ''start''] exampleEnv (Some SIGINT) None
     = (\<lparr>trace = [], engine = []\<rparr>,
        Panicked ''migrate: unsupported migration name format: init.up.sql'')"
  using discovery_failure_panics_before_routes [OF malformed_discover,
      of exampleLibrary "\<lambda>ms args. None" None "[''service'', ''app'', ''start'']" exampleEnv "Some SIGINT" None]
  by simp

section \<open>Properties of the migration registry\<close>

subsection \<open>Discovery\<close>

lemma getOrCreateMigration_all:
  assumes "list_all P ms"
    and "\<And>m. P m \<Longrightarrow> Name m = name \<Longrightarrow> P (f m)"
    and "P (f \<lparr>Name = name, Comment = [], Up = None, Down = None\<rparr>)"
  shows "list_all P (getOrCreateMigration name f ms)"
  using assms(1) by (induction ms) (simp_all add: assms(2,3))

lemma getOrCreateMigration_names:
  assumes "\<And>m. Name (f m) = Name m"
  shows "map Name (getOrCreateMigration name f ms) =
           (if name \<in> set (map Name ms) then map Name ms else map Name ms @ [name])"
  by (induction ms) (auto simp: assms)

lemma hasFile_intro:
  "(path, sql) \<in> set fsys \<Longrightarrow> HasSuffix path suffix \<Longrightarrow>
   extractMigrationName path = Inr (name, comment) \<Longrightarrow> hasFile fsys suffix name sql"
  by (auto simp: hasFile_def list_ex_iff)

lemma Discover_fromFiles:
  "Discover ms rest = Inr reg \<Longrightarrow> list_all (fromFiles fsys) ms \<Longrightarrow> set rest \<subseteq> set fsys \<Longrightarrow>
   list_all (fromFiles fsys) reg"
proof (induction rest arbitrary: ms)
  case Nil
  then show ?case by simp
next
  case (Cons entry rest)
  obtain path sql where entry: "entry = (path, sql)" by (cases entry)
  from Cons.prems(3) entry have mem: "(path, sql) \<in> set fsys" and sub: "set rest \<subseteq> set fsys"
    by auto
  show ?case
  proof (cases "\<not> HasSuffix path ''.up.sql'' \<and> \<not> HasSuffix path ''.down.sql''")
    case True
    with Cons.prems(1) entry have "Discover ms rest = Inr reg" by simp
    then show ?thesis using Cons.IH Cons.prems(2) sub by blast
  next
    case suffixed: False
    show ?thesis
    proof (cases "extractMigrationName path")
      case (Inl err)
      with Cons.prems(1) entry suffixed show ?thesis by simp
    next
      case (Inr nc)
      obtain name comment where nc: "nc = (name, comment)" by (cases nc)
      show ?thesis
      proof (cases "HasSuffix path ''.up.sql''")
        case up: True
        let ?f = "\<lambda>m. m\<lparr>Comment := comment, Up := Some sql\<rparr>"
        have has: "hasFile fsys ''.up.sql'' name sql"
          using mem up Inr nc by (auto intro: hasFile_intro)
        have "list_all (fromFiles fsys) (getOrCreateMigration name ?f ms)"
          using Cons.prems(2)
          by (rule getOrCreateMigration_all) (simp_all add: fromFiles_def fromFile_def has)
        moreover have "Discover (getOrCreateMigration name ?f ms) rest = Inr reg"
          using Cons.prems(1) entry up Inr nc by simp
        ultimately show ?thesis using Cons.IH sub by blast
      next
        case notup: False
        with suffixed have down: "HasSuffix path ''.down.sql''" by simp
        let ?f = "\<lambda>m. m\<lparr>Comment := comment, Down := Some sql\<rparr>"
        have has: "hasFile fsys ''.down.sql'' name sql"
          using mem down Inr nc by (auto intro: hasFile_intro)
        have "list_all (fromFiles fsys) (getOrCreateMigration name ?f ms)"
          using Cons.prems(2)
          by (rule getOrCreateMigration_all) (simp_all add: fromFiles_def fromFile_def has)
        moreover have "Discover (getOrCreateMigration name ?f ms) rest = Inr reg"
          using Cons.prems(1) entry notup down Inr nc by simp
        ultimately show ?thesis using Cons.IH sub by blast
      qed
    qed
  qed
qed

text \<open>
  Discovery keeps the names of the registry distinct, so the list sorted by name is the
  same whichever sorting algorithm produces it.
\<close>

lemma Discover_distinct:
  "Discover ms rest = Inr reg \<Longrightarrow> distinct (map Name ms) \<Longrightarrow> distinct (map Name reg)"
proof (induction ms rest rule: Discover.induct)
  case (1 ms)
  then show ?case by simp
next
  case (2 ms path sql rest)
  have step: "distinct (map Name (getOrCreateMigration name f ms))"
    if "\<And>m. Name (f m) = Name m" for name f
    using "2.prems"(2) by (simp add: getOrCreateMigration_names [OF that])
  show ?case
  proof (cases "\<not> HasSuffix path ''.up.sql'' \<and> \<not> HasSuffix path ''.down.sql''")
    case True
    with 2 show ?thesis by simp
  next
    case False
    show ?thesis
    proof (cases "extractMigrationName path")
      case (Inl err)
      with "2.prems" False show ?thesis by simp
    next
      case (Inr nc)
      obtain name comment where nc: "nc = (name, comment)" by (cases nc)
      show ?thesis
      proof (cases "HasSuffix path ''.up.sql''")
        case True
        with "2.prems"(1) False Inr nc show ?thesis
          using "2.IH"(2) [OF False Inr nc [symmetric] True] step by simp
      next
        case up: False
        with "2.prems"(1) False Inr nc show ?thesis
          using "2.IH"(3) [OF False Inr nc [symmetric] up] step by simp
      qed
    qed
  qed
qed

text \<open>The registry of the repository: what \<open>init\<close> builds from the embedded files.\<close>

lemma init_sqlMigrations:
  "init sqlMigrations =
     Inr [\<lparr>Name = ''20251105065350'', Comment = ''init'', Up = Some init_up_sql, Down = None\<rparr>]"
  by (simp add: init_def sqlMigrations_def NewMigrations_def HasSuffix_def
      extractMigrationName_def isDigit_def isNameChar_def)


subsection \<open>Repeated reads\<close>





subsection \<open>Order by name and by time\<close>

text \<open>
  Strings of digits of one length compare as the numbers they denote, and the order of
  two strings is kept by their prefixes of one length.
\<close>

lemma isDigit_range: "isDigit c \<Longrightarrow> 48 \<le> (of_char c :: nat) \<and> (of_char c :: nat) \<le> 57"
  by (auto simp: isDigit_def)

lemma digitVal_less: "isDigit a \<Longrightarrow> isDigit b \<Longrightarrow> a < b \<longleftrightarrow> digitVal a < digitVal b"
  using isDigit_range [of a] isDigit_range [of b]
  unfolding less_char_def digitVal_def by linarith

lemma digitVal_eq: "isDigit a \<Longrightarrow> isDigit b \<Longrightarrow> a = b \<longleftrightarrow> digitVal a = digitVal b"
proof -
  assume d: "isDigit a" "isDigit b"
  have "a = b \<longleftrightarrow> (of_char a :: nat) = of_char b" by simp
  also have "\<dots> \<longleftrightarrow> digitVal a = digitVal b"
    using isDigit_range [OF d(1)] isDigit_range [OF d(2)] unfolding digitVal_def by linarith
  finally show ?thesis .
qed

lemma digitVal_le9: "isDigit a \<Longrightarrow> digitVal a \<le> 9"
  using isDigit_range [of a] unfolding digitVal_def by linarith

lemma foldl_numVal: "foldl (\<lambda>a c. 10 * a + digitVal c) a s = a * 10 ^ length s + numVal s"
proof (induction s arbitrary: a)
  case Nil
  then show ?case by (simp add: numVal_def)
next
  case (Cons c s)
  show ?case
    using Cons [of "10 * a + digitVal c"] Cons [of "digitVal c"]
    by (simp add: numVal_def algebra_simps)
qed

lemma numVal_Cons: "numVal (c # s) = digitVal c * 10 ^ length s + numVal s"
  using foldl_numVal [of "digitVal c" s] by (simp add: numVal_def)

lemma numVal_bound: "list_all isDigit s \<Longrightarrow> numVal s < 10 ^ length s"
proof (induction s)
  case Nil
  then show ?case by (simp add: numVal_def)
next
  case (Cons c s)
  then have "digitVal c \<le> 9" and b: "numVal s < 10 ^ length s"
    by (simp_all add: digitVal_le9)
  then have "digitVal c * 10 ^ length s \<le> 9 * 10 ^ length s" by simp
  with b have "digitVal c * 10 ^ length s + numVal s < 10 * 10 ^ length s" by linarith
  then show ?case by (simp add: numVal_Cons)
qed

lemma lex_le_numVal:
  "length a = length b \<Longrightarrow> list_all isDigit a \<Longrightarrow> list_all isDigit b \<Longrightarrow>
   a \<le> b \<longleftrightarrow> numVal a \<le> numVal b"
proof (induction a b rule: list_induct2)
  case Nil
  then show ?case by simp
next
  case (Cons x xs y ys)
  then have dx: "isDigit x" and dy: "isDigit y"
    and bx: "numVal xs < 10 ^ length xs" and "numVal ys < 10 ^ length xs"
    and IH: "xs \<le> ys \<longleftrightarrow> numVal xs \<le> numVal ys"
    using numVal_bound [of xs] numVal_bound [of ys] by simp_all
  then have byy: "numVal ys < 10 ^ length ys" using Cons.hyps by simp
  let ?p = "(10::nat) ^ length xs"
  have len: "length ys = length xs" using Cons.hyps by simp
  consider (lt) "digitVal x < digitVal y" | (eq) "digitVal x = digitVal y" | (gt) "digitVal y < digitVal x"
    by linarith
  then show ?case
  proof cases
    case lt
    then have "x < y" using digitVal_less [OF dx dy] by simp
    moreover from lt have "Suc (digitVal x) \<le> digitVal y" by simp
    then have "Suc (digitVal x) * ?p \<le> digitVal y * ?p" by (rule mult_le_mono1)
    then have "digitVal x * ?p + numVal xs \<le> digitVal y * ?p + numVal ys"
      using bx by simp
    ultimately show ?thesis by (simp add: numVal_Cons len)
  next
    case eq
    then have "x = y" using digitVal_eq [OF dx dy] by simp
    then show ?thesis using IH by (simp add: numVal_Cons len)
  next
    case gt
    then have "y < x" using digitVal_less [OF dy dx] by simp
    then have n: "\<not> x < y" "x \<noteq> y" by auto
    from gt have "Suc (digitVal y) \<le> digitVal x" by simp
    then have "Suc (digitVal y) * ?p \<le> digitVal x * ?p" by (rule mult_le_mono1)
    then have "digitVal y * ?p + numVal ys < digitVal x * ?p + numVal xs"
      using byy len by simp
    then show ?thesis using n by (simp add: numVal_Cons len)
  qed
qed

lemma take_le_mono: "(a :: 'a::linorder list) \<le> b \<Longrightarrow> take n a \<le> take n b"
proof (induction n arbitrary: a b)
  case 0
  then show ?case by simp
next
  case (Suc n)
  show ?case
  proof (cases a)
    case Nil
    then show ?thesis by simp
  next
    case ca: (Cons x xs)
    show ?thesis
    proof (cases b)
      case Nil
      with Suc.prems ca show ?thesis by simp
    next
      case (Cons y ys)
      with Suc.prems ca Suc.IH [of xs ys] show ?thesis by auto
    qed
  qed
qed

lemma timestamp_mono:
  assumes "timestampNamed a" and "timestampNamed b" and "a \<le> b"
  shows "timestamp a \<le> timestamp b"
proof -
  have "take 14 a \<le> take 14 b" using assms(3) by (rule take_le_mono)
  moreover have "length (take 14 a) = length (take 14 b)"
    using assms(1,2) by (simp add: timestampNamed_def)
  ultimately show ?thesis
    using assms(1,2) lex_le_numVal [of "take 14 a" "take 14 b"]
    by (simp add: timestampNamed_def timestamp_def)
qed


text \<open>The database commands of \<open>main\<close> are given the list \<open>Sorted\<close> returns.\<close>

lemma main_db_reads_Sorted:
  "take 1 (drop 1 args) = [''db''] \<Longrightarrow>
   main lib dbCommand ver reg args env sig stopResult =
     (\<lparr>trace = [], engine = []\<rparr>, Returned (dbCommand (fst (Sorted reg)) (drop 2 args)))"
  by (cases "drop 1 args") (auto simp: main_def)

text \<open>
  C7. The list \<open>Sorted\<close> returns holds exactly the migrations of the registry, each as
  often as the registry does, in ascending order of their names; when every name starts
  with a timestamp of 14 digits, the timestamps ascend along the list as well.
\<close>

theorem Sorted_full_and_ordered:
  "mset (fst (Sorted ms)) = mset ms
   \<and> sorted (map Name (fst (Sorted ms)))
   \<and> (list_all (\<lambda>m. timestampNamed (Name m)) ms \<longrightarrow>
        sorted (map (\<lambda>m. timestamp (Name m)) (fst (Sorted ms))))"
proof -
  let ?l = "sort_key Name ms"
  have s: "sorted (map Name ?l)" by simp
  have "sorted (map (\<lambda>m. timestamp (Name m)) ?l)" if conv: "list_all (\<lambda>m. timestampNamed (Name m)) ms"
  proof -
    have all: "\<forall>m\<in>set ?l. timestampNamed (Name m)"
      using conv by (simp add: list_all_iff)
    have "sorted_wrt (\<lambda>x y. Name x \<le> Name y) ?l"
      using s by (simp add: sorted_map)
    then have "sorted_wrt (\<lambda>x y. timestamp (Name x) \<le> timestamp (Name y)) ?l"
      by (rule sorted_wrt_mono_rel [rotated]) (use all in \<open>auto intro: timestamp_mono\<close>)
    then show ?thesis by (simp add: sorted_map)
  qed
  then show ?thesis by (simp add: Sorted_def)
qed

theorem Sorted_full_and_ordered_witness:
  "mset (fst (Sorted exampleRegistry)) = mset exampleRegistry
   \<and> sorted (map Name (fst (Sorted exampleRegistry)))
   \<and> sorted (map (\<lambda>m. timestamp (Name m)) (fst (Sorted exampleRegistry)))"
proof -
  have "list_all (\<lambda>m. timestampNamed (Name m)) exampleRegistry"
    by (simp add: exampleRegistry_def timestampNamed_def isDigit_def)
  with Sorted_full_and_ordered [of exampleRegistry] show ?thesis by blast
qed

subsection \<open>The directions a record holds\<close>

text \<open>
  C8, as the files of the repository falsify it: the registry that \<open>init\<close> builds from
  the embedded files holds one migration, 20251105065350, with the text of
  \<open>20251105065350_init.up.sql\<close> for up and nothing for down.
\<close>

theorem not_every_migration_has_down:
  "init sqlMigrations =
     Inr [\<lparr>Name = ''20251105065350'', Comment = ''init'', Up = Some init_up_sql, Down = None\<rparr>]
   \<and> \<not> list_all holdsUpAndDown
       [\<lparr>Name = ''20251105065350'', Comment = ''init'', Up = Some init_up_sql, Down = None\<rparr>]"
  by (simp add: init_sqlMigrations holdsUpAndDown_def)

text \<open>
  C8, amended. Every migration record of the registry built by \<open>init\<close> holds SQL text
  for at least one direction, and each direction it holds is the content of an embedded
  file of its name: of a \<open>.up.sql\<close> file for up, of a \<open>.down.sql\<close> file for down.
\<close>

theorem discovered_directions_from_files:
  assumes "init fsys = Inr reg"
  shows "list_all (fromFiles fsys) reg"
proof -
  from assms have "Discover NewMigrations fsys = Inr reg"
    by (simp add: init_def split: sum.splits)
  then show ?thesis
    by (rule Discover_fromFiles) (simp_all add: NewMigrations_def)
qed

theorem discovered_directions_from_files_witness:
  "list_all (fromFiles sqlMigrations)
     [\<lparr>Name = ''20251105065350'', Comment = ''init'', Up = Some init_up_sql, Down = None\<rparr>]"
  by (rule discovered_directions_from_files [OF init_sqlMigrations])

end
